theory Spec2Isabelle
  imports Complex_Main
begin

section \<open>Values of the flow-diagram component\<close>

text \<open>
  The embedding follows \<^verbatim>\<open>cli/src/registry/react-flow/react-flow.tsx\<close>.
  JavaScript numbers are modelled as the real numbers they denote: rounding of
  doubles, \<^verbatim>\<open>NaN\<close> and the infinities are outside the model, and the one place
  where the source could produce an infinity (\<^verbatim>\<open>Math.min()\<close> of no argument) is
  an explicit \<open>None\<close>.  Template strings that print numbers are kept as the
  structured values they print.  Record fields carry a prefix where the
  source's name (\<^verbatim>\<open>id\<close>, \<^verbatim>\<open>x\<close>, \<^verbatim>\<open>size\<close>, ...) is taken in HOL.
\<close>

record position =
  pos_x :: real
  pos_y :: real

subsection \<open>The insertion-ordered \<^verbatim>\<open>Map\<close>\<close>

text \<open>
  A JavaScript \<^verbatim>\<open>Map\<close> iterates in insertion order and \<^verbatim>\<open>set\<close> on a key that
  is present replaces the value in place; \<^verbatim>\<open>new Map(prev)\<close> copies the entries.
\<close>

type_synonym ('k, 'v) js_map = "('k \<times> 'v) list"

definition map_new :: "('k, 'v) js_map" where
  "map_new = []"

fun map_set :: "'k \<Rightarrow> 'v \<Rightarrow> ('k, 'v) js_map \<Rightarrow> ('k, 'v) js_map" where
  "map_set k v [] = [(k, v)]"
| "map_set k v (e # m) = (if fst e = k then (k, v) # m else e # map_set k v m)"

fun map_get :: "('k, 'v) js_map \<Rightarrow> 'k \<Rightarrow> 'v option" where
  "map_get [] k = None"
| "map_get (e # m) k = (if fst e = k then Some (snd e) else map_get m k)"

definition map_size :: "('k, 'v) js_map \<Rightarrow> nat" where
  "map_size m = length m"

definition map_values :: "('k, 'v) js_map \<Rightarrow> 'v list" where
  "map_values m = map snd m"

definition map_keys :: "('k, 'v) js_map \<Rightarrow> 'k list" where
  "map_keys m = map fst m"

subsection \<open>Container classes: \<^verbatim>\<open>flowVariants\<close>\<close>

datatype FlowVariant = Variant_default | Variant_solid | Variant_bordered

datatype FlowSize = Size_default | Size_sm | Size_lg | Size_full

fun variant_class :: "FlowVariant \<Rightarrow> string" where
  "variant_class Variant_default = ''bg-background''"
| "variant_class Variant_solid =
     ''shadow-lg shadow-zinc-900/10 dark:shadow-zinc-900/20'' @ '' '' @ ''bg-muted''"
| "variant_class Variant_bordered = ''border-2'' @ '' '' @ ''border-border''"

fun size_class :: "FlowSize \<Rightarrow> string" where
  "size_class Size_default = ''h-96''"
| "size_class Size_sm = ''h-64''"
| "size_class Size_lg = ''h-[32rem]''"
| "size_class Size_full = ''h-[calc(100vh-8rem)]''"

text \<open>
  \<^verbatim>\<open>cva\<close> joins the base classes, the class of the chosen variant and the class
  of the chosen size; an omitted choice falls back to \<^verbatim>\<open>defaultVariants\<close>.
\<close>

definition flowVariants :: "FlowVariant option \<Rightarrow> FlowSize option \<Rightarrow> string" where
  "flowVariants v s =
     ''w-full rounded-lg overflow-hidden transition-all duration-200'' @ '' '' @
     variant_class (case v of None \<Rightarrow> Variant_default | Some v' \<Rightarrow> v') @ '' '' @
     size_class (case s of None \<Rightarrow> Size_default | Some s' \<Rightarrow> s')"

text \<open>
  \<^verbatim>\<open>cn\<close> is imported from \<^verbatim>\<open>@/lib/utils\<close>, which is not part of the sources at
  hand: every function that calls it takes it as a parameter.
\<close>

type_synonym cn_fun = "string \<Rightarrow> string option \<Rightarrow> string"

subsection \<open>Nodes and edges\<close>

record node_style =
  backgroundColor :: "string option"
  borderColor :: "string option"
  borderWidth :: "real option"
  borderRadius :: "real option"
  color :: "string option"
  width :: "real option"
  height :: "real option"
  padding :: "real option"

text \<open>
  The node type is the string that arrives at run time: \<^verbatim>\<open>nodeTypeColors\<close> is
  a \<^verbatim>\<open>Record<string, ...>\<close> indexed by it.
\<close>

record flow_node =
  node_id :: string
  node_label :: string
  node_position :: position
  node_type :: "string option"
  node_style :: "node_style option"

datatype edge_kind = Edge_default | Edge_straight | Edge_step | Edge_smoothstep | Edge_bezier

record edge_style =
  stroke :: "string option"
  strokeWidth :: "real option"

record flow_edge =
  edge_id :: string
  edge_source :: string
  edge_target :: string
  edge_label :: "string option"
  edge_type :: "edge_kind option"
  edge_animated :: "bool option"
  edge_style :: "edge_style option"

section \<open>Rendering a node: \<^verbatim>\<open>CustomNode\<close>\<close>

datatype js_error = TypeError

record type_colors =
  bg :: "string option"
  border :: "string option"

text \<open>
  Indexing the object literal \<^verbatim>\<open>nodeTypeColors\<close>: its four own keys, then the
  properties every object inherits (their values have neither \<^verbatim>\<open>bg\<close> nor
  \<^verbatim>\<open>border\<close>), and \<^verbatim>\<open>undefined\<close> for every other key.
\<close>

definition object_prototype_keys :: "string list" where
  "object_prototype_keys =
     [''constructor'', ''__defineGetter__'', ''__defineSetter__'', ''hasOwnProperty'',
      ''__lookupGetter__'', ''__lookupSetter__'', ''isPrototypeOf'',
      ''propertyIsEnumerable'', ''toString'', ''valueOf'', ''__proto__'',
      ''toLocaleString'']"

definition nodeTypeColors :: "string \<Rightarrow> type_colors option" where
  "nodeTypeColors k =
     (if k = ''input'' then Some \<lparr>bg = Some ''#dcfce7'', border = Some ''#22c55e''\<rparr>
      else if k = ''output'' then Some \<lparr>bg = Some ''#fce7f3'', border = Some ''#ec4899''\<rparr>
      else if k = ''default'' then Some \<lparr>bg = Some ''#f1f5f9'', border = Some ''#94a3b8''\<rparr>
      else if k = ''custom'' then Some \<lparr>bg = Some ''#e0f2fe'', border = Some ''#0ea5e9''\<rparr>
      else if k \<in> set object_prototype_keys then Some \<lparr>bg = None, border = None\<rparr>
      else None)"

text \<open>
  The inline style of the node's \<^verbatim>\<open>div\<close>.  The \<^verbatim>\<open>border\<close> template
  \<^verbatim>\<open>`${w}px solid ${c}`\<close> is kept as the pair of the width and the colour it
  prints (\<open>None\<close> prints \<^verbatim>\<open>undefined\<close>).
\<close>

record css =
  css_padding :: real
  css_borderRadius :: real
  css_backgroundColor :: "string option"
  css_border :: "real \<times> string option"
  css_color :: string
  css_width :: "real option"
  css_height :: "real option"
  css_minWidth :: real
  css_textAlign :: string
  css_fontSize :: real
  css_fontWeight :: real

record node_div =
  div_style :: css
  div_className :: string
  div_text :: string

text \<open>
  \<^verbatim>\<open>a?.f ?? d\<close> on an optional style object.
\<close>

definition style_or :: "node_style option \<Rightarrow> (node_style \<Rightarrow> 'a option) \<Rightarrow> 'a \<Rightarrow> 'a" where
  "style_or st f d = (case st of None \<Rightarrow> d | Some s \<Rightarrow> (case f s of None \<Rightarrow> d | Some v \<Rightarrow> v))"

definition style_get :: "node_style option \<Rightarrow> (node_style \<Rightarrow> 'a option) \<Rightarrow> 'a option" where
  "style_get st f = (case st of None \<Rightarrow> None | Some s \<Rightarrow> f s)"

text \<open>
  \<^verbatim>\<open>node.style?.f ?? typeColors.g\<close>: the right operand is evaluated only when
  the left one is nullish, and reading a property of \<^verbatim>\<open>undefined\<close> throws.
\<close>

definition style_or_colors ::
  "node_style option \<Rightarrow> (node_style \<Rightarrow> string option) \<Rightarrow> type_colors option \<Rightarrow>
   (type_colors \<Rightarrow> string option) \<Rightarrow> js_error + string option" where
  "style_or_colors st f tc g =
     (case style_get st f of
        Some v \<Rightarrow> Inr (Some v)
      | None \<Rightarrow> (case tc of None \<Rightarrow> Inl TypeError | Some c \<Rightarrow> Inr (g c)))"

definition CustomNode :: "flow_node \<Rightarrow> js_error + node_div" where
  "CustomNode node =
     (let typeColors = nodeTypeColors (case node_type node of None \<Rightarrow> ''default'' | Some t \<Rightarrow> t)
      in case style_or_colors (node_style node) backgroundColor typeColors bg of
           Inl e \<Rightarrow> Inl e
         | Inr background \<Rightarrow>
            (case style_or_colors (node_style node) borderColor typeColors border of
               Inl e \<Rightarrow> Inl e
             | Inr border_colour \<Rightarrow>
                 Inr \<lparr>div_style =
                        \<lparr>css_padding = style_or (node_style node) padding 12,
                         css_borderRadius = style_or (node_style node) borderRadius 8,
                         css_backgroundColor = background,
                         css_border = (style_or (node_style node) borderWidth 2, border_colour),
                         css_color = style_or (node_style node) color ''#1e293b'',
                         css_width = style_get (node_style node) width,
                         css_height = style_get (node_style node) height,
                         css_minWidth = 120,
                         css_textAlign = ''center'',
                         css_fontSize = 14,
                         css_fontWeight = 500\<rparr>,
                      div_className = ''shadow-sm'',
                      div_text = node_label node\<rparr>))"

section \<open>Rendering an edge: \<^verbatim>\<open>renderEdge\<close>\<close>

text \<open>
  The commands of the path data \<^verbatim>\<open>d\<close>: \<^verbatim>\<open>M x y\<close>, \<^verbatim>\<open>L x y\<close> and
  \<^verbatim>\<open>C x1 y1, x2 y2, x y\<close>.
\<close>

datatype path_cmd =
    MoveTo real real
  | LineTo real real
  | CurveTo real real real real real real

record edge_text =
  text_x :: real
  text_y :: real
  text_anchor :: string
  text_fill :: string
  text_fontSize :: real
  text_content :: string

record edge_element =
  g_key :: string
  marker_id :: string
  marker_fill :: string
  path_d :: "path_cmd list"
  path_stroke :: string
  path_strokeWidth :: real
  path_fill :: string
  path_markerEnd :: string
  path_strokeDasharray :: "string option"
  path_className :: "string option"
  g_text :: "edge_text option"

definition pathD :: "edge_kind option \<Rightarrow> real \<Rightarrow> real \<Rightarrow> real \<Rightarrow> real \<Rightarrow> real \<Rightarrow> path_cmd list" where
  "pathD ty sourceX sourceY targetX targetY midY =
     (case ty of
        Some Edge_straight \<Rightarrow> [MoveTo sourceX sourceY, LineTo targetX targetY]
      | Some Edge_step \<Rightarrow>
          [MoveTo sourceX sourceY, LineTo sourceX midY, LineTo targetX midY,
           LineTo targetX targetY]
      | _ \<Rightarrow> [MoveTo sourceX sourceY, CurveTo sourceX midY targetX midY targetX targetY])"

definition renderEdge :: "flow_edge \<Rightarrow> flow_node list \<Rightarrow> edge_element option" where
  "renderEdge edge nodes =
     (case (find (\<lambda>n. node_id n = edge_source edge) nodes,
            find (\<lambda>n. node_id n = edge_target edge) nodes) of
        (Some sourceNode, Some targetNode) \<Rightarrow>
          (let sourceX = pos_x (node_position sourceNode) + 60;
               sourceY = pos_y (node_position sourceNode) + 25;
               targetX = pos_x (node_position targetNode) + 60;
               targetY = pos_y (node_position targetNode) + 25;
               midX = (sourceX + targetX) / 2;
               midY = (sourceY + targetY) / 2;
               strokeColor = (case edge_style edge of
                                None \<Rightarrow> ''#94a3b8''
                              | Some s \<Rightarrow> (case stroke s of None \<Rightarrow> ''#94a3b8'' | Some c \<Rightarrow> c));
               strokeW = (case edge_style edge of
                            None \<Rightarrow> 2
                          | Some s \<Rightarrow> (case strokeWidth s of None \<Rightarrow> 2 | Some w \<Rightarrow> w));
               animated = (edge_animated edge = Some True)
           in Some \<lparr>g_key = edge_id edge,
                    marker_id = ''arrowhead-'' @ edge_id edge,
                    marker_fill = strokeColor,
                    path_d = pathD (edge_type edge) sourceX sourceY targetX targetY midY,
                    path_stroke = strokeColor,
                    path_strokeWidth = strokeW,
                    path_fill = ''none'',
                    path_markerEnd = ''url(#arrowhead-'' @ edge_id edge @ '')'',
                    path_strokeDasharray = (if animated then Some ''5,5'' else None),
                    path_className = (if animated then Some ''animate-dash'' else None),
                    g_text = (case edge_label edge of
                                None \<Rightarrow> None
                              | Some l \<Rightarrow>
                                  if l = [] then None
                                  else Some \<lparr>text_x = midX, text_y = midY - 10,
                                             text_anchor = ''middle'', text_fill = ''#64748b'',
                                             text_fontSize = 12, text_content = l\<rparr>)\<rparr>)
      | _ \<Rightarrow> None)"

section \<open>The component \<^verbatim>\<open>TamboReactFlow\<close>\<close>

subsection \<open>Props and state\<close>

record props =
  className :: "string option"
  variant :: "FlowVariant option"
  prop_size :: "FlowSize option"
  nodes :: "flow_node list option"
  edges :: "flow_edge list option"
  title :: "string option"
  fitView :: "bool option"
  interactive :: "bool option"

text \<open>The defaults of the destructuring: \<^verbatim>\<open>fitView = true, interactive = false\<close>.\<close>

definition fitView_of :: "props \<Rightarrow> bool" where
  "fitView_of p = (case fitView p of None \<Rightarrow> True | Some b \<Rightarrow> b)"

definition interactive_of :: "props \<Rightarrow> bool" where
  "interactive_of p = (case interactive p of None \<Rightarrow> False | Some b \<Rightarrow> b)"

text \<open>
  The \<^verbatim>\<open>viewBox\<close> string \<^verbatim>\<open>`${minX} ${minY} ${width} ${height}`\<close>, kept as the
  four numbers it prints.
\<close>

record view_box =
  vb_minX :: real
  vb_minY :: real
  vb_width :: real
  vb_height :: real

record drag_session =
  nodeId :: string
  startX :: real
  startY :: real
  nodeStartX :: real
  nodeStartY :: real

type_synonym position_store = "(string, position) js_map"

record flow_state =
  viewBox :: view_box
  dragging :: "drag_session option"
  nodePositions :: position_store

definition initial_state :: flow_state where
  "initial_state =
     \<lparr>viewBox = \<lparr>vb_minX = 0, vb_minY = 0, vb_width = 800, vb_height = 600\<rparr>,
      dragging = None,
      nodePositions = map_new\<rparr>"

subsection \<open>The two effects\<close>

text \<open>
  \<^verbatim>\<open>useEffect(..., [nodes])\<close>: builds a fresh map and replaces the store with
  it, when the node array is present and not empty.
\<close>

definition init_positions :: "flow_node list \<Rightarrow> position_store" where
  "init_positions ns =
     fold (\<lambda>node posMap.
             map_set (node_id node)
               \<lparr>pos_x = pos_x (node_position node), pos_y = pos_y (node_position node)\<rparr>
               posMap)
          ns map_new"

definition init_positions_effect :: "flow_node list option \<Rightarrow> flow_state \<Rightarrow> flow_state" where
  "init_positions_effect nds st =
     (case nds of
        None \<Rightarrow> st
      | Some ns \<Rightarrow>
          if length ns > 0 then st\<lparr>nodePositions := init_positions ns\<rparr> else st)"

text \<open>
  \<^verbatim>\<open>Math.min(...xs)\<close> and \<^verbatim>\<open>Math.max(...xs)\<close>.  Applied to no argument they
  are the infinities, which are not reals: \<open>None\<close>.
\<close>

fun math_min :: "real list \<Rightarrow> real option" where
  "math_min [] = None"
| "math_min (v # vs) = Some (fold min vs v)"

fun math_max :: "real list \<Rightarrow> real option" where
  "math_max [] = None"
| "math_max (v # vs) = Some (fold max vs v)"

text \<open>
  The positions the viewport is fitted to: the values of the store when it has
  an entry, the supplied positions otherwise.
\<close>

definition fit_positions :: "flow_node list \<Rightarrow> position_store \<Rightarrow> position list" where
  "fit_positions ns store =
     (if map_size store > 0 then map_values store else map node_position ns)"

text \<open>
  \<^verbatim>\<open>useEffect(..., [nodes, nodePositions, fitView])\<close>: the new \<^verbatim>\<open>viewBox\<close>, or
  \<open>None\<close> where the source would print an infinity.
\<close>

definition fit_view_box :: "bool \<Rightarrow> flow_node list option \<Rightarrow> position_store \<Rightarrow> view_box \<Rightarrow> view_box option" where
  "fit_view_box fit nds store vb =
     (case nds of
        None \<Rightarrow> Some vb
      | Some ns \<Rightarrow>
          if \<not> fit \<or> length ns = 0 then Some vb
          else
            (let positions = fit_positions ns store;
                 xs = map pos_x positions;
                 ys = map pos_y positions
             in case (math_min xs, math_min ys, math_max xs, math_max ys) of
                  (Some loX, Some loY, Some hiX, Some hiY) \<Rightarrow>
                    (let minX = loX - 50;
                         minY = loY - 50;
                         maxX = hiX + 200;
                         maxY = hiY + 100;
                         w = max (maxX - minX) 400;
                         h = max (maxY - minY) 300
                     in Some \<lparr>vb_minX = minX, vb_minY = minY, vb_width = w, vb_height = h\<rparr>)
                | _ \<Rightarrow> None))"

definition fit_view_effect :: "props \<Rightarrow> flow_state \<Rightarrow> flow_state option" where
  "fit_view_effect p st =
     (case fit_view_box (fitView_of p) (nodes p) (nodePositions st) (viewBox st) of
        None \<Rightarrow> None
      | Some vb \<Rightarrow> Some (st\<lparr>viewBox := vb\<rparr>))"

subsection \<open>Current positions\<close>

definition getCurrentPosition :: "position_store \<Rightarrow> string \<Rightarrow> position" where
  "getCurrentPosition store nid =
     (case map_get store nid of None \<Rightarrow> \<lparr>pos_x = 0, pos_y = 0\<rparr> | Some p \<Rightarrow> p)"

definition nodesWithCurrentPositions :: "flow_node list \<Rightarrow> position_store \<Rightarrow> flow_node list" where
  "nodesWithCurrentPositions ns store =
     map (\<lambda>node. node\<lparr>node_position := getCurrentPosition store (node_id node)\<rparr>) ns"

subsection \<open>Pointer handlers\<close>

record mouse_event =
  clientX :: real
  clientY :: real

definition handleMouseDown :: "bool \<Rightarrow> string \<Rightarrow> mouse_event \<Rightarrow> flow_state \<Rightarrow> flow_state" where
  "handleMouseDown interact nid e st =
     (if \<not> interact then st
      else
        (let pos = getCurrentPosition (nodePositions st) nid
         in st\<lparr>dragging :=
                 Some \<lparr>nodeId = nid, startX = clientX e, startY = clientY e,
                       nodeStartX = pos_x pos, nodeStartY = pos_y pos\<rparr>\<rparr>))"

definition handleMouseMove :: "bool \<Rightarrow> mouse_event \<Rightarrow> flow_state \<Rightarrow> flow_state" where
  "handleMouseMove interact e st =
     (case dragging st of
        None \<Rightarrow> st
      | Some d \<Rightarrow>
          if \<not> interact then st
          else
            (let dx = clientX e - startX d;
                 dy = clientY e - startY d
             in st\<lparr>nodePositions :=
                     map_set (nodeId d)
                       \<lparr>pos_x = nodeStartX d + dx, pos_y = nodeStartY d + dy\<rparr>
                       (nodePositions st)\<rparr>))"

definition handleMouseUp :: "flow_state \<Rightarrow> flow_state" where
  "handleMouseUp st = st\<lparr>dragging := None\<rparr>"

text \<open>
  The pointer events the rendered diagram listens to: \<^verbatim>\<open>onMouseDown\<close> of a
  node, and \<^verbatim>\<open>onMouseMove\<close>, \<^verbatim>\<open>onMouseUp\<close>, \<^verbatim>\<open>onMouseLeave\<close> of the drawing
  surface.
\<close>

datatype pointer_event =
    MouseDown string mouse_event
  | MouseMove mouse_event
  | MouseUp
  | MouseLeave

fun handle_event :: "bool \<Rightarrow> flow_state \<Rightarrow> pointer_event \<Rightarrow> flow_state" where
  "handle_event interact st (MouseDown nid e) = handleMouseDown interact nid e st"
| "handle_event interact st (MouseMove e) = handleMouseMove interact e st"
| "handle_event interact st MouseUp = handleMouseUp st"
| "handle_event interact st MouseLeave = handleMouseUp st"

definition handle_events :: "bool \<Rightarrow> flow_state \<Rightarrow> pointer_event list \<Rightarrow> flow_state" where
  "handle_events interact st evs = foldl (handle_event interact) st evs"

section \<open>The error boundary \<^verbatim>\<open>FlowErrorBoundary\<close>\<close>

record boundary_props =
  b_className :: "string option"
  b_variant :: "FlowVariant option"
  b_size :: "FlowSize option"

record boundary_state =
  hasError :: bool
  error :: "js_error option"

definition boundary_initial_state :: boundary_state where
  "boundary_initial_state = \<lparr>hasError = False, error = None\<rparr>"

definition getDerivedStateFromError :: "js_error \<Rightarrow> boundary_state" where
  "getDerivedStateFromError err = \<lparr>hasError = True, error = Some err\<rparr>"

record error_panel =
  panel_className :: string
  panel_heading :: string
  panel_message :: string

datatype 'a boundary_output = Fallback error_panel | Children 'a

text \<open>The static panel \<^verbatim>\<open>render\<close> returns once an error was caught.\<close>

definition boundary_fallback :: "cn_fun \<Rightarrow> boundary_props \<Rightarrow> error_panel" where
  "boundary_fallback cn p =
     \<lparr>panel_className = cn (flowVariants (b_variant p) (b_size p)) (b_className p),
      panel_heading = ''Error loading flow diagram'',
      panel_message = ''An error occurred while rendering. Please try again.''\<rparr>"

definition FlowErrorBoundary_render ::
  "cn_fun \<Rightarrow> boundary_props \<Rightarrow> boundary_state \<Rightarrow> 'a \<Rightarrow> 'a boundary_output" where
  "FlowErrorBoundary_render cn p st children =
     (if hasError st then Fallback (boundary_fallback cn p) else Children children)"

section \<open>The rendered output\<close>

text \<open>
  A \<^verbatim>\<open>foreignObject\<close> of the diagram, around its child: the \<^verbatim>\<open>CustomNode\<close>
  element with its node before React renders it, the node's \<^verbatim>\<open>div\<close> after.
\<close>

record 'c node_element =
  fo_key :: string
  fo_x :: real
  fo_y :: real
  fo_width :: real
  fo_height :: real
  fo_className :: "string option"
  fo_child :: 'c

record 'c diagram =
  d_className :: string
  d_title :: "string option"
  d_viewBox :: view_box
  d_edges :: "edge_element option list"
  d_nodes :: "'c node_element list"

record loading_panel =
  loading_className :: string
  loading_text :: string

datatype rendered =
    Loading loading_panel
  | ErrorPanel error_panel
  | Diagram "node_div diagram"
  | Uncaught js_error

text \<open>
  React renders the \<^verbatim>\<open>CustomNode\<close> children one after the other; the first one
  that throws ends the rendering of the subtree.
\<close>

fun render_nodes :: "flow_node node_element list \<Rightarrow> js_error + node_div node_element list" where
  "render_nodes [] = Inr []"
| "render_nodes (el # els) =
     (case CustomNode (fo_child el) of
        Inl e \<Rightarrow> Inl e
      | Inr d \<Rightarrow>
          (case render_nodes els of
             Inl e \<Rightarrow> Inl e
           | Inr ds \<Rightarrow>
               Inr (\<lparr>fo_key = fo_key el, fo_x = fo_x el, fo_y = fo_y el,
                     fo_width = fo_width el, fo_height = fo_height el,
                     fo_className = fo_className el, fo_child = d\<rparr> # ds)))"

definition render_subtree :: "flow_node diagram \<Rightarrow> js_error + node_div diagram" where
  "render_subtree t =
     (case render_nodes (d_nodes t) of
        Inl e \<Rightarrow> Inl e
      | Inr ds \<Rightarrow>
          Inr \<lparr>d_className = d_className t, d_title = d_title t, d_viewBox = d_viewBox t,
               d_edges = d_edges t, d_nodes = ds\<rparr>)"

text \<open>
  The contract of React for a class component that defines
  \<^verbatim>\<open>getDerivedStateFromError\<close>: \<^verbatim>\<open>render\<close> is called; when it returns its children
  they are rendered; when rendering them throws, the state becomes
  \<^verbatim>\<open>getDerivedStateFromError(error)\<close> and \<^verbatim>\<open>render\<close> is called again; an error
  thrown below the boundary once more is passed on to whatever encloses the
  component (\<open>Uncaught\<close>).
\<close>

definition react_render_boundary ::
  "cn_fun \<Rightarrow> boundary_props \<Rightarrow> boundary_state \<Rightarrow> flow_node diagram \<Rightarrow> rendered \<times> boundary_state" where
  "react_render_boundary cn p st children =
     (case FlowErrorBoundary_render cn p st children of
        Fallback panel \<Rightarrow> (ErrorPanel panel, st)
      | Children c \<Rightarrow>
          (case render_subtree c of
             Inr d \<Rightarrow> (Diagram d, st)
           | Inl err \<Rightarrow>
               (let st' = getDerivedStateFromError err
                in case FlowErrorBoundary_render cn p st' children of
                     Fallback panel \<Rightarrow> (ErrorPanel panel, st')
                   | Children c' \<Rightarrow>
                       (case render_subtree c' of
                          Inr d \<Rightarrow> (Diagram d, st')
                        | Inl err' \<Rightarrow> (Uncaught err', st')))))"

text \<open>
  The element tree the function component returns below its boundary.  The
  edges are rendered by the component itself (\<^verbatim>\<open>renderEdge\<close> is a plain call),
  the nodes are left to React as \<^verbatim>\<open>CustomNode\<close> elements.
\<close>

definition container_class :: "cn_fun \<Rightarrow> props \<Rightarrow> string" where
  "container_class cn p = cn (flowVariants (variant p) (prop_size p)) (className p)"

definition diagram_tree :: "cn_fun \<Rightarrow> props \<Rightarrow> flow_state \<Rightarrow> flow_node list \<Rightarrow> flow_node diagram" where
  "diagram_tree cn p st ns =
     (let current = nodesWithCurrentPositions ns (nodePositions st)
      in \<lparr>d_className = container_class cn p,
          d_title = (case title p of None \<Rightarrow> None | Some t \<Rightarrow> if t = [] then None else Some t),
          d_viewBox = viewBox st,
          d_edges = (case edges p of None \<Rightarrow> [] | Some es \<Rightarrow> map (\<lambda>edge. renderEdge edge current) es),
          d_nodes =
            map (\<lambda>node.
                   let pos = getCurrentPosition (nodePositions st) (node_id node)
                   in \<lparr>fo_key = node_id node, fo_x = pos_x pos, fo_y = pos_y pos,
                       fo_width = style_or (node_style node) width 120,
                       fo_height = style_or (node_style node) height 50,
                       fo_className = (if interactive_of p then Some ''cursor-move'' else None),
                       fo_child = node\<rparr>)
                current\<rparr>)"

text \<open>
  One render of the component, with the state of its boundary.  The loading
  placeholder is returned without a boundary, so a boundary mounted later
  starts from its initial state.
\<close>

definition TamboReactFlow ::
  "cn_fun \<Rightarrow> props \<Rightarrow> flow_state \<Rightarrow> boundary_state \<Rightarrow> rendered \<times> boundary_state" where
  "TamboReactFlow cn p st bst =
     (let loading = Loading \<lparr>loading_className = container_class cn p,
                             loading_text = ''Building flow diagram...''\<rparr>
      in case nodes p of
           None \<Rightarrow> (loading, boundary_initial_state)
         | Some ns \<Rightarrow>
             if length ns = 0 then (loading, boundary_initial_state)
             else react_render_boundary cn
                    \<lparr>b_className = className p, b_variant = variant p, b_size = prop_size p\<rparr>
                    bst (diagram_tree cn p st ns))"

section \<open>Example inputs and stated properties\<close>

text \<open>A node without style, labelled by its identifier.\<close>

definition mk_node :: "string \<Rightarrow> real \<Rightarrow> real \<Rightarrow> string option \<Rightarrow> flow_node" where
  "mk_node i a b t =
     \<lparr>node_id = i, node_label = i, node_position = \<lparr>pos_x = a, pos_y = b\<rparr>,
      node_type = t, node_style = None\<rparr>"

text \<open>
  The store holds exactly one entry per supplied node, and the entry of each
  node holds the coordinates the node was supplied with.
\<close>

definition store_matches :: "flow_node list \<Rightarrow> position_store \<Rightarrow> bool" where
  "store_matches ns store \<longleftrightarrow>
     map_size store = length ns \<and>
     list_all (\<lambda>n. map_get store (node_id n) = Some (node_position n)) ns"

text \<open>Joining class names with a blank, as a stand-in for \<^verbatim>\<open>cn\<close> in examples.\<close>

definition cn_join :: cn_fun where
  "cn_join base extra = (case extra of None \<Rightarrow> base | Some c \<Rightarrow> base @ '' '' @ c)"

definition mk_edge :: "string \<Rightarrow> string \<Rightarrow> string \<Rightarrow> edge_kind option \<Rightarrow> flow_edge" where
  "mk_edge i s t k =
     \<lparr>edge_id = i, edge_source = s, edge_target = t, edge_label = None, edge_type = k,
      edge_animated = None, edge_style = None\<rparr>"

text \<open>The nodes of the registration-flow example, and props that carry them.\<close>

definition example_nodes :: "flow_node list" where
  "example_nodes =
     [mk_node ''1'' 250 0 (Some ''input''), mk_node ''2'' 250 100 None,
      mk_node ''3'' 250 200 (Some ''output'')]"

definition example_props :: props where
  "example_props =
     \<lparr>className = None, variant = Some Variant_bordered, prop_size = Some Size_lg,
      nodes = Some example_nodes,
      edges = None, title = None, fitView = None, interactive = None\<rparr>"

section \<open>The position store\<close>

subsection \<open>Facts about the map\<close>

lemma map_get_map_set:
  "map_get (map_set k v m) k' = (if k' = k then Some v else map_get m k')"
  by (induction m) auto

lemma keys_map_set: "fst ` set (map_set k v m) = insert k (fst ` set m)"
  by (induction m) auto

lemma distinct_map_set: "distinct (map fst m) \<Longrightarrow> distinct (map fst (map_set k v m))"
  by (induction m) (auto simp: keys_map_set)

lemma map_set_fresh: "k \<notin> set (map fst m) \<Longrightarrow> map_set k v m = m @ [(k, v)]"
  by (induction m) auto

lemma map_get_None_iff: "map_get m k = None \<longleftrightarrow> k \<notin> set (map fst m)"
  by (induction m) auto

lemma map_get_Some_mem: "map_get m k = Some v \<Longrightarrow> (k, v) \<in> set m"
  by (induction m) (auto split: if_splits)

lemma map_get_distinct: "distinct (map fst m) \<Longrightarrow> (k, v) \<in> set m \<Longrightarrow> map_get m k = Some v"
  by (induction m) (auto simp: rev_image_eqI)

lemma fold_set_fresh:
  "distinct (map f ns) \<Longrightarrow> set (map f ns) \<inter> set (map fst acc) = {} \<Longrightarrow>
   fold (\<lambda>n m. map_set (f n) (g n) m) ns acc = acc @ map (\<lambda>n. (f n, g n)) ns"
proof (induction ns arbitrary: acc)
  case Nil
  then show ?case by simp
next
  case (Cons n ns)
  have fresh: "f n \<notin> set (map fst acc)" using Cons.prems(2) by auto
  have step: "map_set (f n) (g n) acc = acc @ [(f n, g n)]"
    using fresh by (rule map_set_fresh)
  have "set (map f ns) \<inter> set (map fst (acc @ [(f n, g n)])) = {}"
    using Cons.prems by auto
  with Cons.IH [of "acc @ [(f n, g n)]"] Cons.prems(1) step show ?case by simp
qed

lemma fold_set_get:
  "map_get (fold (\<lambda>n m. map_set (f n) (g n) m) ns acc) k =
     (case filter (\<lambda>n. f n = k) ns of
        [] \<Rightarrow> map_get acc k
      | m # ms \<Rightarrow> Some (g (last (m # ms))))"
proof (induction ns arbitrary: acc)
  case Nil
  then show ?case by simp
next
  case (Cons n ns)
  show ?case
    using Cons.IH [of "map_set (f n) (g n) acc"]
    by (auto simp: map_get_map_set split: list.splits)
qed

lemma fold_set_keys:
  "fst ` set (fold (\<lambda>n m. map_set (f n) (g n) m) ns acc) = f ` set ns \<union> fst ` set acc"
  by (induction ns arbitrary: acc) (simp_all add: keys_map_set)

lemma fold_set_distinct:
  "distinct (map fst acc) \<Longrightarrow> distinct (map fst (fold (\<lambda>n m. map_set (f n) (g n) m) ns acc))"
  by (induction ns arbitrary: acc) (auto simp: distinct_map_set)

lemma position_eta [simp]: "\<lparr>pos_x = pos_x p, pos_y = pos_y p\<rparr> = (p::position)"
  by simp

lemma init_positions_distinct:
  assumes "distinct (map node_id ns)"
  shows "init_positions ns = map (\<lambda>n. (node_id n, node_position n)) ns"
  using fold_set_fresh [of node_id ns "[]" "\<lambda>n. \<lparr>pos_x = pos_x (node_position n), pos_y = pos_y (node_position n)\<rparr>"] assms
  by (simp add: init_positions_def map_new_def)

lemma init_positions_get:
  "map_get (init_positions ns) k =
     (case filter (\<lambda>n. node_id n = k) ns of
        [] \<Rightarrow> None
      | m # ms \<Rightarrow> Some (node_position (last (m # ms))))"
  unfolding init_positions_def map_new_def
  by (simp add: fold_set_get split: list.splits)

lemma init_positions_keys: "fst ` set (init_positions ns) = node_id ` set ns"
  unfolding init_positions_def map_new_def by (simp add: fold_set_keys)

lemma init_positions_distinct_keys: "distinct (map fst (init_positions ns))"
  unfolding init_positions_def map_new_def by (rule fold_set_distinct) simp

lemma distinct_key_count:
  "distinct (map fst m) \<Longrightarrow> k \<in> fst ` set m \<Longrightarrow> length (filter (\<lambda>e. fst e = k) m) = 1"
proof (induction m)
  case Nil
  then show ?case by simp
next
  case (Cons e m)
  show ?case
  proof (cases "fst e = k")
    case True
    with Cons.prems have "filter (\<lambda>e. fst e = k) m = []"
      by (auto simp: filter_empty_conv image_iff)
    with True show ?thesis by simp
  next
    case False
    with Cons show ?thesis by auto
  qed
qed

subsection \<open>Lookup\<close>

text \<open>
  Claim C8.  Looking up the current position of any identifier returns a
  position: the origin \<open>(0, 0)\<close> when the store has no entry for the
  identifier, and the stored coordinates (those of an entry of the store) when
  it has one.  The lookup has no failing branch.
\<close>

theorem getCurrentPosition_total:
  "(nid \<notin> set (map_keys store) \<longrightarrow> getCurrentPosition store nid = \<lparr>pos_x = 0, pos_y = 0\<rparr>) \<and>
   (\<forall>p. map_get store nid = Some p \<longrightarrow> getCurrentPosition store nid = p) \<and>
   (nid \<in> set (map_keys store) \<longrightarrow> (nid, getCurrentPosition store nid) \<in> set store)"
proof (intro conjI impI allI)
  assume "nid \<notin> set (map_keys store)"
  then have "map_get store nid = None"
    by (simp add: map_get_None_iff map_keys_def)
  then show "getCurrentPosition store nid = \<lparr>pos_x = 0, pos_y = 0\<rparr>"
    by (simp add: getCurrentPosition_def)
next
  fix p assume "map_get store nid = Some p"
  then show "getCurrentPosition store nid = p"
    by (simp add: getCurrentPosition_def)
next
  assume "nid \<in> set (map_keys store)"
  then obtain p where p: "map_get store nid = Some p"
    using map_get_None_iff [of store nid] by (auto simp: map_keys_def)
  then have "(nid, p) \<in> set store" by (rule map_get_Some_mem)
  with p show "(nid, getCurrentPosition store nid) \<in> set store"
    by (simp add: getCurrentPosition_def)
qed

theorem getCurrentPosition_total_witness:
  "getCurrentPosition [(''1'', \<lparr>pos_x = 250, pos_y = 100\<rparr>)] ''99'' = \<lparr>pos_x = 0, pos_y = 0\<rparr> \<and>
   getCurrentPosition [(''1'', \<lparr>pos_x = 250, pos_y = 100\<rparr>)] ''1'' = \<lparr>pos_x = 250, pos_y = 100\<rparr>"
  using getCurrentPosition_total [of "''99''" "[(''1'', \<lparr>pos_x = 250, pos_y = 100\<rparr>)]"]
        getCurrentPosition_total [of "''1''" "[(''1'', \<lparr>pos_x = 250, pos_y = 100\<rparr>)]"]
  by (simp add: map_keys_def)

subsection \<open>Initialisation\<close>

text \<open>
  Claim C1, as amended.  For every non-empty node sequence with pairwise
  distinct identifiers, the initialisation effect replaces the store by the
  supplied positions, whatever the store held before: afterwards the store is
  the sequence of the supplied nodes' identifiers with their supplied
  coordinates, one entry per node, and nothing of the previous store is left.
\<close>

theorem init_positions_effect_resets:
  assumes "ns \<noteq> []" and "distinct (map node_id ns)"
  shows "nodePositions (init_positions_effect (Some ns) st) =
           map (\<lambda>n. (node_id n, node_position n)) ns \<and>
         store_matches ns (nodePositions (init_positions_effect (Some ns) st))"
proof -
  have eq: "nodePositions (init_positions_effect (Some ns) st) =
              map (\<lambda>n. (node_id n, node_position n)) ns"
    using assms by (simp add: init_positions_effect_def init_positions_distinct)
  have "map_get (init_positions ns) (node_id n) = Some (node_position n)" if "n \<in> set ns" for n
  proof -
    have "(node_id n, node_position n) \<in> set (init_positions ns)"
      using that assms(2) by (auto simp: init_positions_distinct)
    then show ?thesis
      using init_positions_distinct_keys by (rule map_get_distinct [rotated])
  qed
  then have "list_all (\<lambda>n. map_get (init_positions ns) (node_id n) = Some (node_position n)) ns"
    by (simp add: list_all_iff)
  with eq assms show ?thesis
    by (simp add: store_matches_def map_size_def init_positions_effect_def)
qed

theorem init_positions_effect_resets_witness:
  "nodePositions (init_positions_effect (Some [mk_node ''1'' 250 0 None, mk_node ''2'' 250 100 None])
      (initial_state\<lparr>nodePositions := [(''1'', \<lparr>pos_x = 5, pos_y = 7\<rparr>), (''7'', \<lparr>pos_x = 1, pos_y = 1\<rparr>)]\<rparr>)) =
     [(''1'', \<lparr>pos_x = 250, pos_y = 0\<rparr>), (''2'', \<lparr>pos_x = 250, pos_y = 100\<rparr>)]"
  using init_positions_effect_resets [of "[mk_node ''1'' 250 0 None, mk_node ''2'' 250 100 None]"
      "initial_state\<lparr>nodePositions := [(''1'', \<lparr>pos_x = 5, pos_y = 7\<rparr>), (''7'', \<lparr>pos_x = 1, pos_y = 1\<rparr>)]\<rparr>"]
  by (simp add: mk_node_def)

text \<open>
  Claim C1 as first stated, for every supplied node sequence, fails in two
  ways: on an empty sequence the effect leaves the previous entries in place,
  and of two nodes that share an identifier only the last one's coordinates
  are stored.
\<close>

theorem init_positions_effect_not_always_reset:
  "\<not> store_matches []
       (nodePositions (init_positions_effect (Some [])
          (initial_state\<lparr>nodePositions := [(''1'', \<lparr>pos_x = 5, pos_y = 7\<rparr>)]\<rparr>))) \<and>
   \<not> store_matches [mk_node ''1'' 0 0 None, mk_node ''1'' 9 9 None]
       (nodePositions (init_positions_effect (Some [mk_node ''1'' 0 0 None, mk_node ''1'' 9 9 None])
          initial_state))"
  by (simp add: store_matches_def init_positions_effect_def init_positions_def map_new_def
      map_size_def mk_node_def initial_state_def)

subsection \<open>Empty and repeated input\<close>

text \<open>
  Claim C9.  When the \<^verbatim>\<open>nodes\<close> prop is absent or empty, the initialisation
  effect leaves the state as it is, so the store keeps every entry it held
  (the viewport effect changes nothing either), and the component renders the
  loading placeholder.
\<close>

theorem empty_nodes_keep_store:
  assumes "nodes p = None \<or> nodes p = Some []"
  shows "init_positions_effect (nodes p) st = st \<and>
         fit_view_effect p st = Some st \<and>
         fst (TamboReactFlow cn p st bst) =
           Loading \<lparr>loading_className = container_class cn p,
                    loading_text = ''Building flow diagram...''\<rparr>"
  using assms
  by (auto simp: init_positions_effect_def fit_view_effect_def fit_view_box_def TamboReactFlow_def)

theorem empty_nodes_keep_store_witness:
  "nodePositions (init_positions_effect (Some [])
      (initial_state\<lparr>nodePositions := [(''1'', \<lparr>pos_x = 5, pos_y = 7\<rparr>)]\<rparr>)) =
     [(''1'', \<lparr>pos_x = 5, pos_y = 7\<rparr>)] \<and>
   nodePositions (init_positions_effect None
      (initial_state\<lparr>nodePositions := [(''1'', \<lparr>pos_x = 5, pos_y = 7\<rparr>)]\<rparr>)) =
     [(''1'', \<lparr>pos_x = 5, pos_y = 7\<rparr>)] \<and>
   fst (TamboReactFlow cn_join (example_props\<lparr>nodes := Some []\<rparr>)
      (initial_state\<lparr>nodePositions := [(''1'', \<lparr>pos_x = 5, pos_y = 7\<rparr>)]\<rparr>)
      boundary_initial_state) =
     Loading \<lparr>loading_className =
                ''w-full rounded-lg overflow-hidden transition-all duration-200 border-2 border-border h-[32rem]'',
              loading_text = ''Building flow diagram...''\<rparr>"
  using empty_nodes_keep_store [of "example_props\<lparr>nodes := Some []\<rparr>"
      "initial_state\<lparr>nodePositions := [(''1'', \<lparr>pos_x = 5, pos_y = 7\<rparr>)]\<rparr>"
      cn_join boundary_initial_state]
    empty_nodes_keep_store [of "example_props\<lparr>nodes := None\<rparr>"
      "initial_state\<lparr>nodePositions := [(''1'', \<lparr>pos_x = 5, pos_y = 7\<rparr>)]\<rparr>"
      cn_join boundary_initial_state]
  by (simp add: example_props_def container_class_def cn_join_def flowVariants_def)

lemma init_positions_last:
  assumes "k \<in> node_id ` set ns"
  shows "map_get (init_positions ns) k = Some (node_position (last (filter (\<lambda>n. node_id n = k) ns)))"
proof -
  from assms have "filter (\<lambda>n. node_id n = k) ns \<noteq> []"
    by (auto simp: filter_empty_conv)
  then show ?thesis
    by (simp add: init_positions_get split: list.splits)
qed

lemma nodesWithCurrentPositions_same_id:
  "filter (\<lambda>n. node_id n = k) (nodesWithCurrentPositions ns store) =
     map (\<lambda>node. node\<lparr>node_position := getCurrentPosition store k\<rparr>)
       (filter (\<lambda>n. node_id n = k) ns)"
  by (induction ns) (simp_all add: nodesWithCurrentPositions_def)

lemma nodesWithCurrentPositions_positions:
  "map node_position (filter (\<lambda>n. node_id n = k) (nodesWithCurrentPositions ns store)) =
     replicate (length (filter (\<lambda>n. node_id n = k) ns)) (getCurrentPosition store k)"
  by (simp add: nodesWithCurrentPositions_same_id map_replicate_const o_def)

lemma d_nodes_same_id:
  "map (\<lambda>el. (fo_x el, fo_y el)) (filter (\<lambda>el. fo_key el = k) (d_nodes (diagram_tree cn p st ns))) =
     replicate (length (filter (\<lambda>n. node_id n = k) ns))
       (pos_x (getCurrentPosition (nodePositions st) k),
        pos_y (getCurrentPosition (nodePositions st) k))"
proof -
  have "filter (\<lambda>el. fo_key el = k) (d_nodes (diagram_tree cn p st ns)) =
          map (\<lambda>node. \<lparr>fo_key = node_id node,
                 fo_x = pos_x (getCurrentPosition (nodePositions st) k),
                 fo_y = pos_y (getCurrentPosition (nodePositions st) k),
                 fo_width = style_or (node_style node) width 120,
                 fo_height = style_or (node_style node) height 50,
                 fo_className = (if interactive_of p then Some ''cursor-move'' else None),
                 fo_child = node\<lparr>node_position := getCurrentPosition (nodePositions st) k\<rparr>\<rparr>)
            (filter (\<lambda>n. node_id n = k) ns)"
    by (induction ns) (simp_all add: diagram_tree_def nodesWithCurrentPositions_def Let_def)
  then show ?thesis
    by (simp add: map_replicate_const o_def)
qed

text \<open>
  Claim C10.  When two or more of the supplied nodes share an identifier,
  the store after initialisation has a single entry for that identifier and
  the lookup of the identifier returns the coordinates of the last such node
  of the sequence.  Every node with that identifier is kept for rendering, as
  many as were supplied, each with that position, and the diagram holds one
  \<^verbatim>\<open>foreignObject\<close> for each of them, all at those coordinates.
\<close>

theorem duplicate_ids_last_wins:
  assumes "2 \<le> length (filter (\<lambda>n. node_id n = k) ns)"
  shows "length (filter (\<lambda>e. fst e = k) (nodePositions (init_positions_effect (Some ns) st))) = 1 \<and>
         getCurrentPosition (nodePositions (init_positions_effect (Some ns) st)) k =
           node_position (last (filter (\<lambda>n. node_id n = k) ns)) \<and>
         map node_position
           (filter (\<lambda>n. node_id n = k)
              (nodesWithCurrentPositions ns (nodePositions (init_positions_effect (Some ns) st)))) =
           replicate (length (filter (\<lambda>n. node_id n = k) ns))
             (node_position (last (filter (\<lambda>n. node_id n = k) ns))) \<and>
         map (\<lambda>el. (fo_x el, fo_y el))
           (filter (\<lambda>el. fo_key el = k)
              (d_nodes (diagram_tree cn p (init_positions_effect (Some ns) st) ns))) =
           replicate (length (filter (\<lambda>n. node_id n = k) ns))
             (pos_x (node_position (last (filter (\<lambda>n. node_id n = k) ns))),
              pos_y (node_position (last (filter (\<lambda>n. node_id n = k) ns))))"
proof -
  from assms have ne: "filter (\<lambda>n. node_id n = k) ns \<noteq> []" by auto
  then have mem: "k \<in> node_id ` set ns" by (auto simp: filter_empty_conv)
  from ne have "ns \<noteq> []" by auto
  then have store: "nodePositions (init_positions_effect (Some ns) st) = init_positions ns"
    by (simp add: init_positions_effect_def)
  have one: "length (filter (\<lambda>e. fst e = k) (init_positions ns)) = 1"
    using init_positions_distinct_keys mem
    by (intro distinct_key_count) (simp_all add: init_positions_keys)
  have cur: "getCurrentPosition (init_positions ns) k =
               node_position (last (filter (\<lambda>n. node_id n = k) ns))"
    using init_positions_last [OF mem] by (simp add: getCurrentPosition_def)
  show ?thesis
    unfolding nodesWithCurrentPositions_positions d_nodes_same_id store cur
    using one by simp
qed

theorem duplicate_ids_last_wins_witness:
  "2 \<le> length (filter (\<lambda>n. node_id n = ''1'')
            [mk_node ''1'' 0 0 None, mk_node ''2'' 5 5 None, mk_node ''1'' 9 8 None]) \<and>
   nodePositions (init_positions_effect
        (Some [mk_node ''1'' 0 0 None, mk_node ''2'' 5 5 None, mk_node ''1'' 9 8 None]) initial_state) =
     [(''1'', \<lparr>pos_x = 9, pos_y = 8\<rparr>), (''2'', \<lparr>pos_x = 5, pos_y = 5\<rparr>)] \<and>
   getCurrentPosition
     (nodePositions (init_positions_effect
        (Some [mk_node ''1'' 0 0 None, mk_node ''2'' 5 5 None, mk_node ''1'' 9 8 None]) initial_state))
     ''1'' = \<lparr>pos_x = 9, pos_y = 8\<rparr> \<and>
   map node_position
     (nodesWithCurrentPositions
        [mk_node ''1'' 0 0 None, mk_node ''2'' 5 5 None, mk_node ''1'' 9 8 None]
        (nodePositions (init_positions_effect
           (Some [mk_node ''1'' 0 0 None, mk_node ''2'' 5 5 None, mk_node ''1'' 9 8 None])
           initial_state))) =
     [\<lparr>pos_x = 9, pos_y = 8\<rparr>, \<lparr>pos_x = 5, pos_y = 5\<rparr>, \<lparr>pos_x = 9, pos_y = 8\<rparr>] \<and>
   map (\<lambda>el. (fo_key el, fo_x el, fo_y el))
     (d_nodes (diagram_tree cn_join example_props
        (init_positions_effect
           (Some [mk_node ''1'' 0 0 None, mk_node ''2'' 5 5 None, mk_node ''1'' 9 8 None])
           initial_state)
        [mk_node ''1'' 0 0 None, mk_node ''2'' 5 5 None, mk_node ''1'' 9 8 None])) =
     [(''1'', 9, 8), (''2'', 5, 5), (''1'', 9, 8)]"
  using duplicate_ids_last_wins [of "''1''" "[mk_node ''1'' 0 0 None, mk_node ''2'' 5 5 None, mk_node ''1'' 9 8 None]"
      initial_state cn_join example_props]
  by (simp add: mk_node_def init_positions_effect_def init_positions_def map_new_def
      nodesWithCurrentPositions_def getCurrentPosition_def diagram_tree_def Let_def)

section \<open>Edges\<close>

lemma find_None_ids: "find (\<lambda>n. node_id n = k) ns = None \<longleftrightarrow> k \<notin> node_id ` set ns"
  by (auto simp: find_None_iff)

lemma renderEdge_None_iff:
  "renderEdge edge ns = None \<longleftrightarrow>
     (edge_source edge \<notin> node_id ` set ns \<or> edge_target edge \<notin> node_id ` set ns)"
proof -
  have "renderEdge edge ns = None \<longleftrightarrow>
          (find (\<lambda>n. node_id n = edge_source edge) ns = None \<or>
           find (\<lambda>n. node_id n = edge_target edge) ns = None)"
    by (simp add: renderEdge_def Let_def split: option.splits)
  then show ?thesis by (simp add: find_None_ids)
qed

lemma nodesWithCurrentPositions_ids:
  "node_id ` set (nodesWithCurrentPositions ns store) = node_id ` set ns"
  by (auto simp: nodesWithCurrentPositions_def image_iff)

lemma d_edges_diagram_tree:
  "d_edges (diagram_tree cn p st ns) =
     (case edges p of
        None \<Rightarrow> []
      | Some es \<Rightarrow> map (\<lambda>edge. renderEdge edge (nodesWithCurrentPositions ns (nodePositions st))) es)"
  by (simp add: diagram_tree_def Let_def)

text \<open>
  Claim C2.  \<^verbatim>\<open>renderEdge\<close> returns \<^verbatim>\<open>null\<close> exactly for the edges whose source
  or target identifier is the identifier of no node of the sequence; every
  other edge is rendered.  In the diagram the same holds of each edge of the
  \<^verbatim>\<open>edges\<close> prop with respect to the supplied nodes.  \<^verbatim>\<open>renderEdge\<close> has no
  failing branch.
\<close>

theorem renderEdge_dangling:
  "(renderEdge edge ns = None \<longleftrightarrow>
      (edge_source edge \<notin> node_id ` set ns \<or> edge_target edge \<notin> node_id ` set ns)) \<and>
   (edges p = Some es \<longrightarrow>
      map (\<lambda>r. r = None) (d_edges (diagram_tree cn p st ns)) =
      map (\<lambda>e. edge_source e \<notin> node_id ` set ns \<or> edge_target e \<notin> node_id ` set ns) es)"
  by (simp add: renderEdge_None_iff d_edges_diagram_tree nodesWithCurrentPositions_ids)

theorem renderEdge_dangling_witness:
  "renderEdge (mk_edge ''e-bad'' ''1'' ''99'' None) example_nodes = None \<and>
   renderEdge (mk_edge ''e-bad'' ''99'' ''1'' None) example_nodes = None \<and>
   renderEdge (mk_edge ''e1-2'' ''1'' ''2'' None) example_nodes \<noteq> None \<and>
   map (\<lambda>r. r = None)
     (d_edges (diagram_tree cn_join
        (example_props\<lparr>edges := Some [mk_edge ''e1-2'' ''1'' ''2'' None, mk_edge ''e-bad'' ''1'' ''99'' None]\<rparr>)
        initial_state example_nodes)) = [False, True]"
  using renderEdge_dangling [of "mk_edge ''e-bad'' ''1'' ''99'' None" example_nodes]
        renderEdge_dangling [of "mk_edge ''e-bad'' ''99'' ''1'' None" example_nodes]
        renderEdge_dangling [of "mk_edge ''e1-2'' ''1'' ''2'' None" example_nodes
                   "example_props\<lparr>edges := Some [mk_edge ''e1-2'' ''1'' ''2'' None, mk_edge ''e-bad'' ''1'' ''99'' None]\<rparr>"
                   "[mk_edge ''e1-2'' ''1'' ''2'' None, mk_edge ''e-bad'' ''1'' ''99'' None]"
                   cn_join initial_state]
  by (simp add: mk_edge_def example_nodes_def mk_node_def example_props_def d_edges_diagram_tree)

text \<open>
  Claim C6.  For an edge whose source and target are found, the path starts
  at the source's position plus \<open>(60, 25)\<close> and ends at the target's position
  plus \<open>(60, 25)\<close>.  A \<^verbatim>\<open>straight\<close> edge is one line; a \<^verbatim>\<open>step\<close> edge is three
  lines, down to the mean of the two end heights, across, and on to the target;
  \<^verbatim>\<open>smoothstep\<close>, \<^verbatim>\<open>bezier\<close>, \<^verbatim>\<open>default\<close> and an unset type are one cubic
  curve whose two control points lie at that mean height.
\<close>

theorem renderEdge_path:
  assumes "find (\<lambda>n. node_id n = edge_source edge) ns = Some s"
      and "find (\<lambda>n. node_id n = edge_target edge) ns = Some t"
  shows "(edge_type edge = Some Edge_straight \<longrightarrow>
            map_option path_d (renderEdge edge ns) =
              Some [MoveTo (pos_x (node_position s) + 60) (pos_y (node_position s) + 25),
                    LineTo (pos_x (node_position t) + 60) (pos_y (node_position t) + 25)]) \<and>
         (edge_type edge = Some Edge_step \<longrightarrow>
            map_option path_d (renderEdge edge ns) =
              Some [MoveTo (pos_x (node_position s) + 60) (pos_y (node_position s) + 25),
                    LineTo (pos_x (node_position s) + 60)
                      (((pos_y (node_position s) + 25) + (pos_y (node_position t) + 25)) / 2),
                    LineTo (pos_x (node_position t) + 60)
                      (((pos_y (node_position s) + 25) + (pos_y (node_position t) + 25)) / 2),
                    LineTo (pos_x (node_position t) + 60) (pos_y (node_position t) + 25)]) \<and>
         (edge_type edge \<in> {None, Some Edge_default, Some Edge_smoothstep, Some Edge_bezier} \<longrightarrow>
            map_option path_d (renderEdge edge ns) =
              Some [MoveTo (pos_x (node_position s) + 60) (pos_y (node_position s) + 25),
                    CurveTo
                      (pos_x (node_position s) + 60)
                      (((pos_y (node_position s) + 25) + (pos_y (node_position t) + 25)) / 2)
                      (pos_x (node_position t) + 60)
                      (((pos_y (node_position s) + 25) + (pos_y (node_position t) + 25)) / 2)
                      (pos_x (node_position t) + 60) (pos_y (node_position t) + 25)])"
  using assms by (auto simp: renderEdge_def pathD_def Let_def)

theorem renderEdge_path_witness:
  "map (\<lambda>k. map_option path_d (renderEdge (mk_edge ''e1-3'' ''1'' ''3'' k) example_nodes))
     [Some Edge_straight, Some Edge_step, Some Edge_smoothstep, Some Edge_bezier, Some Edge_default, None] =
   [Some [MoveTo 310 25, LineTo 310 225],
    Some [MoveTo 310 25, LineTo 310 125, LineTo 310 125, LineTo 310 225],
    Some [MoveTo 310 25, CurveTo 310 125 310 125 310 225],
    Some [MoveTo 310 25, CurveTo 310 125 310 125 310 225],
    Some [MoveTo 310 25, CurveTo 310 125 310 125 310 225],
    Some [MoveTo 310 25, CurveTo 310 125 310 125 310 225]]"
  using renderEdge_path [of "mk_edge ''e1-3'' ''1'' ''3'' (Some Edge_straight)" example_nodes
                   "mk_node ''1'' 250 0 (Some ''input'')" "mk_node ''3'' 250 200 (Some ''output'')"]
        renderEdge_path [of "mk_edge ''e1-3'' ''1'' ''3'' (Some Edge_step)" example_nodes
                   "mk_node ''1'' 250 0 (Some ''input'')" "mk_node ''3'' 250 200 (Some ''output'')"]
        renderEdge_path [of "mk_edge ''e1-3'' ''1'' ''3'' (Some Edge_smoothstep)" example_nodes
                   "mk_node ''1'' 250 0 (Some ''input'')" "mk_node ''3'' 250 200 (Some ''output'')"]
        renderEdge_path [of "mk_edge ''e1-3'' ''1'' ''3'' (Some Edge_bezier)" example_nodes
                   "mk_node ''1'' 250 0 (Some ''input'')" "mk_node ''3'' 250 200 (Some ''output'')"]
        renderEdge_path [of "mk_edge ''e1-3'' ''1'' ''3'' (Some Edge_default)" example_nodes
                   "mk_node ''1'' 250 0 (Some ''input'')" "mk_node ''3'' 250 200 (Some ''output'')"]
        renderEdge_path [of "mk_edge ''e1-3'' ''1'' ''3'' None" example_nodes
                   "mk_node ''1'' 250 0 (Some ''input'')" "mk_node ''3'' 250 200 (Some ''output'')"]
  by (simp add: mk_edge_def example_nodes_def mk_node_def)

section \<open>The viewport\<close>

lemma math_min_Min: "xs \<noteq> [] \<Longrightarrow> math_min xs = Some (Min (set xs))"
proof (cases xs)
  case Nil
  assume "xs \<noteq> []"
  with Nil show ?thesis by simp
next
  case (Cons v vs)
  have "Min (set (v # vs)) = fold min vs v" by (rule Min.set_eq_fold)
  with Cons show ?thesis by simp
qed

lemma math_max_Max: "xs \<noteq> [] \<Longrightarrow> math_max xs = Some (Max (set xs))"
proof (cases xs)
  case Nil
  assume "xs \<noteq> []"
  with Nil show ?thesis by simp
next
  case (Cons v vs)
  have "Max (set (v # vs)) = fold max vs v" by (rule Max.set_eq_fold)
  with Cons show ?thesis by simp
qed

lemma fit_positions_nonempty: "ns \<noteq> [] \<Longrightarrow> fit_positions ns store \<noteq> []"
  by (simp add: fit_positions_def map_size_def map_values_def)

lemma fit_view_box_fitted:
  assumes "ns \<noteq> []"
  shows "fit_view_box True (Some ns) store vb =
           Some \<lparr>vb_minX = Min (set (map pos_x (fit_positions ns store))) - 50,
                 vb_minY = Min (set (map pos_y (fit_positions ns store))) - 50,
                 vb_width =
                   max ((Max (set (map pos_x (fit_positions ns store))) + 200) -
                        (Min (set (map pos_x (fit_positions ns store))) - 50)) 400,
                 vb_height =
                   max ((Max (set (map pos_y (fit_positions ns store))) + 100) -
                        (Min (set (map pos_y (fit_positions ns store))) - 50)) 300\<rparr>"
proof -
  have ne: "map pos_x (fit_positions ns store) \<noteq> []" "map pos_y (fit_positions ns store) \<noteq> []"
    using fit_positions_nonempty [OF assms, of store] by simp_all
  show ?thesis
    using assms
    by (simp add: fit_view_box_def Let_def math_min_Min [OF ne(1)] math_min_Min [OF ne(2)]
        math_max_Max [OF ne(1)] math_max_Max [OF ne(2)] del: set_map)
qed

lemma store_entry_current:
  assumes "nid \<in> fst ` set store"
  shows "(nid, getCurrentPosition store nid) \<in> set store"
proof -
  from assms obtain p where p: "map_get store nid = Some p"
    using map_get_None_iff [of store nid] by auto
  then have "(nid, p) \<in> set store" by (rule map_get_Some_mem)
  with p show ?thesis by (simp add: getCurrentPosition_def)
qed

lemma fit_positions_current:
  assumes "distinct (map_keys store)" and "set (map_keys store) = node_id ` set ns" and "ns \<noteq> []"
  shows "set (fit_positions ns store) = set (map node_position (nodesWithCurrentPositions ns store))"
proof -
  have keys: "fst ` set store = node_id ` set ns"
    using assms(2) by (simp add: map_keys_def)
  with assms(3) have "store \<noteq> []" by auto
  then have fp: "fit_positions ns store = map snd store"
    by (simp add: fit_positions_def map_size_def map_values_def)
  have cur: "set (map node_position (nodesWithCurrentPositions ns store)) =
               getCurrentPosition store ` node_id ` set ns"
    by (auto simp: nodesWithCurrentPositions_def image_iff)
  have "snd ` set store = getCurrentPosition store ` fst ` set store"
  proof (intro set_eqI iffI)
    fix v assume "v \<in> snd ` set store"
    then obtain k where kv: "(k, v) \<in> set store" by auto
    then have "map_get store k = Some v"
      using assms(1) by (intro map_get_distinct) (simp_all add: map_keys_def)
    then have "getCurrentPosition store k = v" by (simp add: getCurrentPosition_def)
    moreover from kv have "k \<in> fst ` set store" by force
    ultimately show "v \<in> getCurrentPosition store ` fst ` set store" by blast
  next
    fix v assume "v \<in> getCurrentPosition store ` fst ` set store"
    then obtain k where k: "k \<in> fst ` set store" and v: "v = getCurrentPosition store k" by auto
    from store_entry_current [OF k] v show "v \<in> snd ` set store" by force
  qed
  with fp cur keys show ?thesis by simp
qed

text \<open>
  Claim C3.  With \<^verbatim>\<open>fitView\<close> enabled (or left to its default) and a
  non-empty node sequence, the viewport effect sets the rectangle
  \<open>(minX - 50, minY - 50, max ((maxX + 200) - (minX - 50)) 400,
  max ((maxY + 100) - (minY - 50)) 300)\<close>, the minima and maxima being taken over
  the positions the effect reads: the values of the store, or the supplied
  positions while the store is empty.  The width is at least 400 and the height
  at least 300.  When the store holds one entry for each supplied identifier and
  no other, the positions read are the current positions of the nodes.
\<close>

theorem fit_view_effect_rectangle:
  assumes "fitView_of p" and "nodes p = Some ns" and "ns \<noteq> []"
  shows "fit_view_effect p st =
           Some (st\<lparr>viewBox :=
             \<lparr>vb_minX = Min (set (map pos_x (fit_positions ns (nodePositions st)))) - 50,
              vb_minY = Min (set (map pos_y (fit_positions ns (nodePositions st)))) - 50,
              vb_width =
                max ((Max (set (map pos_x (fit_positions ns (nodePositions st)))) + 200) -
                     (Min (set (map pos_x (fit_positions ns (nodePositions st)))) - 50)) 400,
              vb_height =
                max ((Max (set (map pos_y (fit_positions ns (nodePositions st)))) + 100) -
                     (Min (set (map pos_y (fit_positions ns (nodePositions st)))) - 50)) 300\<rparr>\<rparr>) \<and>
         (\<exists>st'. fit_view_effect p st = Some st' \<and>
                400 \<le> vb_width (viewBox st') \<and> 300 \<le> vb_height (viewBox st')) \<and>
         (distinct (map_keys (nodePositions st)) \<and>
          set (map_keys (nodePositions st)) = node_id ` set ns \<longrightarrow>
            set (fit_positions ns (nodePositions st)) =
            set (map node_position (nodesWithCurrentPositions ns (nodePositions st))))"
proof -
  have box: "fit_view_effect p st =
           Some (st\<lparr>viewBox :=
             \<lparr>vb_minX = Min (set (map pos_x (fit_positions ns (nodePositions st)))) - 50,
              vb_minY = Min (set (map pos_y (fit_positions ns (nodePositions st)))) - 50,
              vb_width =
                max ((Max (set (map pos_x (fit_positions ns (nodePositions st)))) + 200) -
                     (Min (set (map pos_x (fit_positions ns (nodePositions st)))) - 50)) 400,
              vb_height =
                max ((Max (set (map pos_y (fit_positions ns (nodePositions st)))) + 100) -
                     (Min (set (map pos_y (fit_positions ns (nodePositions st)))) - 50)) 300\<rparr>\<rparr>)"
    using assms(1,2) fit_view_box_fitted [OF assms(3), of "nodePositions st" "viewBox st"]
    by (simp add: fit_view_effect_def)
  then have "\<exists>st'. fit_view_effect p st = Some st' \<and>
                400 \<le> vb_width (viewBox st') \<and> 300 \<le> vb_height (viewBox st')"
    by simp
  with box fit_positions_current [of "nodePositions st" ns] assms(3) show ?thesis
    by blast
qed

theorem fit_view_effect_rectangle_witness:
  "map_option viewBox
     (fit_view_effect (example_props\<lparr>nodes := Some [mk_node ''1'' 0 0 None]\<rparr>)
        (initial_state\<lparr>nodePositions := [(''1'', \<lparr>pos_x = 0, pos_y = 0\<rparr>)]\<rparr>)) =
     Some \<lparr>vb_minX = - 50, vb_minY = - 50, vb_width = 400, vb_height = 300\<rparr> \<and>
   map_option viewBox
     (fit_view_effect example_props
        (initial_state\<lparr>nodePositions := init_positions example_nodes\<rparr>)) =
     Some \<lparr>vb_minX = 200, vb_minY = - 50, vb_width = 400, vb_height = 350\<rparr>"
  using fit_view_effect_rectangle [of "example_props\<lparr>nodes := Some [mk_node ''1'' 0 0 None]\<rparr>" "[mk_node ''1'' 0 0 None]"
                   "initial_state\<lparr>nodePositions := [(''1'', \<lparr>pos_x = 0, pos_y = 0\<rparr>)]\<rparr>"]
        fit_view_effect_rectangle [of example_props example_nodes
                   "initial_state\<lparr>nodePositions := init_positions example_nodes\<rparr>"]
  by (simp add: example_props_def fitView_of_def example_nodes_def mk_node_def initial_state_def
      fit_positions_def map_size_def map_values_def init_positions_def map_new_def)

section \<open>Dragging\<close>

lemma handleMouseDown_session:
  "dragging (handleMouseDown True nid e st) =
     Some \<lparr>nodeId = nid, startX = clientX e, startY = clientY e,
           nodeStartX = pos_x (getCurrentPosition (nodePositions st) nid),
           nodeStartY = pos_y (getCurrentPosition (nodePositions st) nid)\<rparr> \<and>
   nodePositions (handleMouseDown True nid e st) = nodePositions st"
  by (simp add: handleMouseDown_def Let_def)

lemma handleMouseMove_store:
  assumes "dragging st = Some d"
  shows "nodePositions (handleMouseMove True e st) =
           map_set (nodeId d)
             \<lparr>pos_x = nodeStartX d + (clientX e - startX d),
              pos_y = nodeStartY d + (clientY e - startY d)\<rparr>
             (nodePositions st)"
  using assms by (simp add: handleMouseMove_def Let_def)

text \<open>
  Claim C4.  With \<^verbatim>\<open>interactive\<close> true and a drag session on node \<open>N\<close> that
  started at pointer position \<open>(sx, sy)\<close> with the node at \<open>(nx, ny)\<close>, a
  pointer move to \<open>(sx + dx, sy + dy)\<close> stores \<open>(nx + dx, ny + dy)\<close> for \<open>N\<close>;
  the entry of every other identifier is what it was, and no key other than
  \<open>N\<close> is added.
\<close>

theorem handleMouseMove_moves_dragged_node:
  assumes "interactive_of p"
      and "dragging st =
             Some \<lparr>nodeId = N, startX = sx, startY = sy, nodeStartX = nx, nodeStartY = ny\<rparr>"
  shows "map_get (nodePositions
            (handleMouseMove (interactive_of p) \<lparr>clientX = sx + dx, clientY = sy + dy\<rparr> st)) N =
           Some \<lparr>pos_x = nx + dx, pos_y = ny + dy\<rparr> \<and>
         (\<forall>k. k \<noteq> N \<longrightarrow>
            map_get (nodePositions
              (handleMouseMove (interactive_of p) \<lparr>clientX = sx + dx, clientY = sy + dy\<rparr> st)) k =
            map_get (nodePositions st) k) \<and>
         set (map_keys (nodePositions
            (handleMouseMove (interactive_of p) \<lparr>clientX = sx + dx, clientY = sy + dy\<rparr> st))) =
           insert N (set (map_keys (nodePositions st)))"
proof -
  have "nodePositions (handleMouseMove (interactive_of p) \<lparr>clientX = sx + dx, clientY = sy + dy\<rparr> st) =
          map_set N \<lparr>pos_x = nx + dx, pos_y = ny + dy\<rparr> (nodePositions st)"
    using assms(1) handleMouseMove_store [OF assms(2)] by simp
  then show ?thesis
    by (simp add: map_get_map_set map_keys_def keys_map_set)
qed

theorem handleMouseMove_moves_dragged_node_witness:
  "nodePositions
     (handleMouseMove True \<lparr>clientX = 13, clientY = 6\<rparr>
        (handleMouseDown True ''2'' \<lparr>clientX = 10, clientY = 10\<rparr>
           (initial_state\<lparr>nodePositions := init_positions example_nodes\<rparr>))) =
   [(''1'', \<lparr>pos_x = 250, pos_y = 0\<rparr>), (''2'', \<lparr>pos_x = 253, pos_y = 96\<rparr>),
    (''3'', \<lparr>pos_x = 250, pos_y = 200\<rparr>)] \<and>
   map_get (nodePositions
     (handleMouseMove True \<lparr>clientX = 13, clientY = 6\<rparr>
        (handleMouseDown True ''2'' \<lparr>clientX = 10, clientY = 10\<rparr>
           (initial_state\<lparr>nodePositions := init_positions example_nodes\<rparr>)))) ''2'' =
   Some \<lparr>pos_x = 253, pos_y = 96\<rparr>"
  using handleMouseMove_moves_dragged_node [of "example_props\<lparr>interactive := Some True\<rparr>"
      "handleMouseDown True ''2'' \<lparr>clientX = 10, clientY = 10\<rparr>
         (initial_state\<lparr>nodePositions := init_positions example_nodes\<rparr>)"
      "''2''" 10 10 250 100 3 "- 4"]
  by (simp add: interactive_of_def handleMouseDown_def handleMouseMove_def getCurrentPosition_def
      initial_state_def init_positions_def map_new_def example_nodes_def mk_node_def Let_def)

lemma handle_event_readonly: "nodePositions (handle_event False st ev) = nodePositions st"
  by (cases ev) (simp_all add: handleMouseDown_def handleMouseMove_def handleMouseUp_def
      split: option.splits)

lemma handle_events_readonly: "nodePositions (handle_events False st evs) = nodePositions st"
  unfolding handle_events_def
  by (induction evs arbitrary: st) (simp_all add: handle_event_readonly)

text \<open>
  Claim C5.  With \<^verbatim>\<open>interactive\<close> false (or left to its default), any
  sequence of pointer events leaves the position store as it was: a pointer
  down changes nothing, so no drag session is created, a pointer move changes
  nothing, and every identifier has the position it had before.
\<close>

theorem readonly_pointer_events_keep_store:
  assumes "\<not> interactive_of p"
  shows "nodePositions (handle_events (interactive_of p) st evs) = nodePositions st \<and>
         handleMouseDown (interactive_of p) nid e st = st \<and>
         handleMouseMove (interactive_of p) e st = st \<and>
         (\<forall>k. getCurrentPosition (nodePositions (handle_events (interactive_of p) st evs)) k =
               getCurrentPosition (nodePositions st) k)"
  using assms
  by (simp add: handle_events_readonly handleMouseDown_def handleMouseMove_def split: option.splits)

theorem readonly_pointer_events_keep_store_witness:
  "nodePositions
     (handle_events False (initial_state\<lparr>nodePositions := init_positions example_nodes\<rparr>)
        [MouseDown ''2'' \<lparr>clientX = 10, clientY = 10\<rparr>, MouseMove \<lparr>clientX = 13, clientY = 6\<rparr>, MouseUp]) =
   [(''1'', \<lparr>pos_x = 250, pos_y = 0\<rparr>), (''2'', \<lparr>pos_x = 250, pos_y = 100\<rparr>),
    (''3'', \<lparr>pos_x = 250, pos_y = 200\<rparr>)] \<and>
   dragging (handleMouseDown False ''2'' \<lparr>clientX = 10, clientY = 10\<rparr>
       (initial_state\<lparr>nodePositions := init_positions example_nodes\<rparr>)) = None"
  using readonly_pointer_events_keep_store [of example_props "initial_state\<lparr>nodePositions := init_positions example_nodes\<rparr>"
      "[MouseDown ''2'' \<lparr>clientX = 10, clientY = 10\<rparr>, MouseMove \<lparr>clientX = 13, clientY = 6\<rparr>, MouseUp]"
      "''2''" "\<lparr>clientX = 10, clientY = 10\<rparr>"]
  by (simp add: interactive_of_def example_props_def initial_state_def init_positions_def
      map_new_def example_nodes_def mk_node_def)

section \<open>The error boundary\<close>

lemma boundary_render_error:
  "hasError bst \<Longrightarrow> FlowErrorBoundary_render cn bp bst c = Fallback (boundary_fallback cn bp)"
  by (simp add: FlowErrorBoundary_render_def)

lemma boundary_render_children:
  "\<not> hasError bst \<Longrightarrow> FlowErrorBoundary_render cn bp bst c = Children c"
  by (simp add: FlowErrorBoundary_render_def)

lemma hasError_derived: "hasError (getDerivedStateFromError err)"
  by (simp add: getDerivedStateFromError_def)

lemma boundary_shows_fallback:
  "hasError bst \<Longrightarrow>
   react_render_boundary cn bp bst t = (ErrorPanel (boundary_fallback cn bp), bst)"
  by (simp add: react_render_boundary_def boundary_render_error)

lemma boundary_shows_children:
  "\<not> hasError bst \<Longrightarrow> render_subtree t = Inr d \<Longrightarrow>
   react_render_boundary cn bp bst t = (Diagram d, bst)"
  by (simp add: react_render_boundary_def boundary_render_children)

lemma boundary_catches_fresh:
  "\<not> hasError bst \<Longrightarrow> render_subtree t = Inl err \<Longrightarrow>
   react_render_boundary cn bp bst t =
     (ErrorPanel (boundary_fallback cn bp), getDerivedStateFromError err)"
  by (simp add: react_render_boundary_def boundary_render_children
      boundary_render_error [OF hasError_derived] Let_def)

lemma boundary_catches:
  assumes "render_subtree t = Inl err"
  shows "fst (react_render_boundary cn bp bst t) = ErrorPanel (boundary_fallback cn bp) \<and>
         hasError (snd (react_render_boundary cn bp bst t))"
proof (cases "hasError bst")
  case True
  then show ?thesis by (simp add: boundary_shows_fallback)
next
  case False
  then show ?thesis using assms by (simp add: boundary_catches_fresh hasError_derived)
qed

lemma boundary_never_propagates: "fst (react_render_boundary cn bp bst t) \<noteq> Uncaught e"
proof (cases "hasError bst")
  case True
  then show ?thesis by (simp add: boundary_shows_fallback)
next
  case False
  then show ?thesis
    by (cases "render_subtree t") (simp_all add: boundary_catches_fresh boundary_shows_children)
qed

lemma TamboReactFlow_never_propagates: "fst (TamboReactFlow cn p st bst) \<noteq> Uncaught e"
  by (simp add: TamboReactFlow_def Let_def boundary_never_propagates split: option.splits)

lemma d_className_diagram_tree: "d_className (diagram_tree cn p st ns) = container_class cn p"
  by (simp add: diagram_tree_def Let_def)

text \<open>
  Claim C7.  When rendering the subtree below the boundary raises an
  exception, the component's output is the static panel
  \<^verbatim>\<open>Error loading flow diagram\<close>, its container carries the classes of the
  normal container (the same \<^verbatim>\<open>variant\<close>, \<^verbatim>\<open>size\<close> and \<^verbatim>\<open>className\<close>), the
  boundary is left in its error state, and no exception is passed on to what
  encloses the component.
\<close>

theorem boundary_replaces_failed_render:
  assumes "nodes p = Some ns" and "ns \<noteq> []"
      and "render_subtree (diagram_tree cn p st ns) = Inl err"
  shows "fst (TamboReactFlow cn p st bst) =
           ErrorPanel
             \<lparr>panel_className = d_className (diagram_tree cn p st ns),
              panel_heading = ''Error loading flow diagram'',
              panel_message = ''An error occurred while rendering. Please try again.''\<rparr> \<and>
         d_className (diagram_tree cn p st ns) =
           cn (flowVariants (variant p) (prop_size p)) (className p) \<and>
         hasError (snd (TamboReactFlow cn p st bst)) \<and>
         (\<forall>e. fst (TamboReactFlow cn p st bst) \<noteq> Uncaught e)"
proof -
  have run: "TamboReactFlow cn p st bst =
               react_render_boundary cn
                 \<lparr>b_className = className p, b_variant = variant p, b_size = prop_size p\<rparr>
                 bst (diagram_tree cn p st ns)"
    using assms(1,2) by (simp add: TamboReactFlow_def Let_def)
  have cls: "d_className (diagram_tree cn p st ns) =
               cn (flowVariants (variant p) (prop_size p)) (className p)"
    by (simp add: d_className_diagram_tree container_class_def)
  from boundary_catches [OF assms(3)] run
  have "fst (TamboReactFlow cn p st bst) =
          ErrorPanel
            (boundary_fallback cn
               \<lparr>b_className = className p, b_variant = variant p, b_size = prop_size p\<rparr>)"
    and "hasError (snd (TamboReactFlow cn p st bst))"
    by simp_all
  with cls show ?thesis
    by (simp add: boundary_fallback_def)
qed

theorem boundary_replaces_failed_render_witness:
  "fst (TamboReactFlow cn_join
          (example_props\<lparr>nodes := Some [mk_node ''1'' 250 0 None, mk_node ''2'' 250 100 (Some ''decision'')]\<rparr>)
          initial_state boundary_initial_state) =
     ErrorPanel
       \<lparr>panel_className =
          ''w-full rounded-lg overflow-hidden transition-all duration-200 border-2 border-border h-[32rem]'',
        panel_heading = ''Error loading flow diagram'',
        panel_message = ''An error occurred while rendering. Please try again.''\<rparr>"
  using boundary_replaces_failed_render [of "example_props\<lparr>nodes := Some [mk_node ''1'' 250 0 None, mk_node ''2'' 250 100 (Some ''decision'')]\<rparr>"
      "[mk_node ''1'' 250 0 None, mk_node ''2'' 250 100 (Some ''decision'')]"
      cn_join initial_state TypeError boundary_initial_state]
  by (simp add: example_props_def mk_node_def render_subtree_def diagram_tree_def Let_def
      nodesWithCurrentPositions_def CustomNode_def nodeTypeColors_def object_prototype_keys_def
      style_or_colors_def style_get_def container_class_def cn_join_def flowVariants_def)

end
